theory Spec2Isabelle
  imports Complex_Main "HOL-Library.AList"
begin

section \<open>Python values shared by the modules\<close>

text \<open>
  Exceptions are values. \<open>TritonModelAnalyzerException\<close> carries its message; the others
  are the built-in exceptions the modelled statements can raise.
\<close>

datatype error =
    TritonModelAnalyzerException string
  | NameError string
  | KeyError
  | ValueError
  | FileNotFoundError string
  | NoDeviceError

text \<open>
  A Python \<open>dict\<close> keeps its keys in insertion order: it is an association list.
  \<open>d[k] = v\<close> replaces the value in place when \<open>k\<close> is present and appends the pair
  otherwise, which is \<^const>\<open>AList.update\<close>; \<open>k in d\<close> tests the keys; \<open>d[k]\<close> on a
  plain dict raises \<open>KeyError\<close> when the key is missing.
\<close>

text \<open>The character \<open>'\<close> of the f-strings that quote a key.\<close>

definition squote :: string where
  "squote = [CHR 0x27]"

definition dict_contains :: "('k \<times> 'v) list \<Rightarrow> 'k \<Rightarrow> bool" where
  "dict_contains d k = (k \<in> set (map fst d))"

definition dict_getitem :: "('k \<times> 'v) list \<Rightarrow> 'k \<Rightarrow> error + 'v" where
  "dict_getitem d k = (case map_of d k of None \<Rightarrow> Inl KeyError | Some v \<Rightarrow> Inr v)"

definition dict_setitem :: "('k \<times> 'v) list \<Rightarrow> 'k \<Rightarrow> 'v \<Rightarrow> ('k \<times> 'v) list" where
  "dict_setitem d k v = AList.update k v d"


section \<open>perf\_analyzer/perf\_config.py: PerfAnalyzerConfig\<close>

text \<open>
  The three dictionaries of the object. A stored value is any Python object; \<open>None\<close> is
  Python's \<open>None\<close> (the argument is left to the perf\_analyzer's default).
\<close>

record 'v PerfAnalyzerConfig =
  p_args :: "(string \<times> 'v option) list"
  p_options :: "(string \<times> 'v option) list"
  p_verbose :: "(string \<times> 'v option) list"

definition input_to_options :: "(string \<times> string) list" where
  "input_to_options =
    [(''model-name'', ''-m''), (''model-version'', ''-x''), (''batch-size'', ''-b''),
     (''url'', ''-u''), (''protocol'', ''-i''), (''latency-report-file'', ''-f''),
     (''streaming'', ''-H'')]"

definition input_to_verbose :: "(string \<times> string) list" where
  "input_to_verbose = [(''verbose'', ''-v''), (''extra-verbose'', ''-v -v'')]"

text \<open>\<open>__init__\<close>: every argument starts as \<open>None\<close>.\<close>

definition init_config :: "'v PerfAnalyzerConfig" where
  "init_config =
    \<lparr> p_args =
        [(''async'', None), (''sync'', None), (''measurement-interval'', None),
         (''concurrency-range'', None), (''request-rate-range'', None),
         (''request-distribution'', None), (''request-intervals'', None),
         (''binary-search'', None), (''num-of-sequence'', None),
         (''latency-threshold'', None), (''max-threads'', None),
         (''stability-percentage'', None), (''max-trials'', None), (''percentile'', None),
         (''input-data'', None), (''shared-memory'', None),
         (''output-shared-memory-size'', None), (''shape'', None),
         (''sequence-length'', None), (''string-length'', None), (''string-data'', None)],
      p_options =
        [(''-m'', None), (''-x'', None), (''-b'', None), (''-u'', None), (''-i'', None),
         (''-f'', None), (''-H'', None)],
      p_verbose = [(''-v'', None), (''-v -v'', None)] \<rparr>"

text \<open>
  \<open>__getitem__\<close>: the three membership tests in the source's order, then the raise.
  \<open>self._options[self._input_to_options[key]]\<close> is two plain subscripts, each of which
  can raise \<open>KeyError\<close>.
\<close>

definition getitem :: "'v PerfAnalyzerConfig \<Rightarrow> string \<Rightarrow> error + 'v option" where
  "getitem c key =
    (if dict_contains (p_args c) key then dict_getitem (p_args c) key
     else if dict_contains input_to_options key then
       (case dict_getitem input_to_options key of
          Inl e \<Rightarrow> Inl e
        | Inr opt \<Rightarrow> dict_getitem (p_options c) opt)
     else if dict_contains input_to_verbose key then
       (case dict_getitem input_to_verbose key of
          Inl e \<Rightarrow> Inl e
        | Inr opt \<Rightarrow> dict_getitem (p_verbose c) opt)
     else Inl (TritonModelAnalyzerException (squote @ key @ squote @ '' Key not found in config'')))"

text \<open>
  \<open>__setitem__\<close> mutates the object: the model returns the object after the call together
  with the outcome (\<open>Inr ()\<close> for a normal return).
\<close>

definition setitem ::
  "'v PerfAnalyzerConfig \<Rightarrow> string \<Rightarrow> 'v option \<Rightarrow> 'v PerfAnalyzerConfig \<times> (error + unit)" where
  "setitem c key v =
    (if dict_contains (p_args c) key then
       (c\<lparr>p_args := dict_setitem (p_args c) key v\<rparr>, Inr ())
     else if dict_contains input_to_options key then
       (case dict_getitem input_to_options key of
          Inl e \<Rightarrow> (c, Inl e)
        | Inr opt \<Rightarrow> (c\<lparr>p_options := dict_setitem (p_options c) opt v\<rparr>, Inr ()))
     else if dict_contains input_to_verbose key then
       (case dict_getitem input_to_verbose key of
          Inl e \<Rightarrow> (c, Inl e)
        | Inr opt \<Rightarrow> (c\<lparr>p_verbose := dict_setitem (p_verbose c) opt v\<rparr>, Inr ()))
     else (c, Inl (TritonModelAnalyzerException
            (''The argument '' @ squote @ key @ squote @
             '' to the perf_analyzer is not supported by the model analyzer.''))))"

text \<open>
  A config as a program can hold it: a fresh object after any sequence of assignments
  \<open>config[k] = v\<close>, failed ones included (as \<open>_create_perf_config\<close> builds it from a
  dictionary of parameters).
\<close>

fun setitems :: "'v PerfAnalyzerConfig \<Rightarrow> (string \<times> 'v option) list \<Rightarrow> 'v PerfAnalyzerConfig" where
  "setitems c [] = c"
| "setitems c ((k, v) # kvs) = setitems (fst (setitem c k v)) kvs"

text \<open>The keys the config recognises: long-form arguments, option aliases, verbose aliases.\<close>

definition recognized :: "string \<Rightarrow> bool" where
  "recognized key =
    (dict_contains (p_args (init_config :: unit PerfAnalyzerConfig)) key
     \<or> dict_contains input_to_options key \<or> dict_contains input_to_verbose key)"


section \<open>record/: the metric records\<close>

text \<open>
  The record classes the analyzer imports. The class object is the key of the aggregator's
  dictionary, so the classes are the values of a datatype.
\<close>

datatype record_type = GPUUsedMemory | GPUFreeMemory | PerfThroughput | PerfLatency

text \<open>
  Modelled from the spec: the base classes \<open>Record\<close> and \<open>GPURecord\<close> (record/record.py,
  record/gpu\_record.py) are not part of the sources at hand. \<open>GPUUsedMemory.__init__\<close>
  passes \<open>device\<close>, the measured value and \<open>timestamp\<close> to the base class; per the spec
  (section 3) a record has a value, an optional device (present for device-scoped variants,
  absent for run-scoped ones) and a timestamp, and \<open>device()\<close> on a record without a
  device fails with \<open>NoDeviceError\<close>. A device (class \<open>GPUDevice\<close>, not at hand either)
  is known by its \<open>device_id()\<close>, the grouping key. A value is a finite float and is
  ordered as the real number it denotes.
\<close>

datatype gpu_device = GPUDevice (device_id: nat)

datatype py_record =
  Record (rtype: record_type) (rdevice: "gpu_device option") (rvalue: real) (timestamp: real)

text \<open>What a caller can hand to \<open>insert\<close>: a record, or an object of any other class.\<close>

datatype py_object = Rec py_record | NotARecord

text \<open>\<open>GPUUsedMemory.header\<close> (record/gpu\_used\_memory.py).\<close>

definition header_GPUUsedMemory :: string where
  "header_GPUUsedMemory = ''GPU Used Memory [MB]''"

text \<open>
  Python's \<open>max\<close> on a list: \<open>ValueError\<close> on the empty list, else a left-to-right scan
  that replaces the running maximum only by a strictly greater item.
\<close>

fun py_max :: "real list \<Rightarrow> error + real" where
  "py_max [] = Inl ValueError"
| "py_max (x # xs) = Inr (fold (\<lambda>item m. if m < item then item else m) xs x)"


section \<open>record/record\_aggregator.py: RecordAggregator\<close>

text \<open>
  The object is its field \<open>_records\<close>, a \<open>defaultdict(list)\<close> from record class to the
  list of records of that class. Lists are modelled by value: \<open>add_key\<close> stores the very
  list object it is given, so a filtered copy shares its buckets with the source, but no
  operation below writes to a bucket of one aggregator while another one is read.
\<close>

type_synonym RecordAggregator = "(record_type \<times> py_record list) list"

text \<open>
  Subscripting a \<open>defaultdict(list)\<close>: a present key returns its list; a missing key is
  first stored with a fresh empty list, which is returned. It never raises \<open>KeyError\<close>, and
  it changes the dictionary in the second case: the result is the list and the dictionary
  after the access.
\<close>

definition defaultdict_getitem ::
  "RecordAggregator \<Rightarrow> record_type \<Rightarrow> py_record list \<times> RecordAggregator" where
  "defaultdict_getitem d k =
    (case map_of d k of Some v \<Rightarrow> (v, d) | None \<Rightarrow> ([], dict_setitem d k []))"

text \<open>
  The module imports only \<open>Record\<close>, \<open>defaultdict\<close> and \<open>itertools\<close> (lines 15 to 17):
  the name \<open>TritonModelAnalyzerException\<close> is bound nowhere in it. A statement
  \<open>raise TritonModelAnalyzerException(...)\<close> of this module therefore fails while it looks
  the name up, before any message is built, with \<open>NameError\<close>.
\<close>

definition raise_unbound :: error where
  "raise_unbound = NameError ''TritonModelAnalyzerException''"

definition insert_record ::
  "RecordAggregator \<Rightarrow> py_object \<Rightarrow> RecordAggregator \<times> (error + unit)" where
  "insert_record self obj =
    (case obj of
       Rec record \<Rightarrow>
         (let (bucket, self1) = defaultdict_getitem self (rtype record)
          in (dict_setitem self1 (rtype record) (bucket @ [record]), Inr ()))
     | NotARecord \<Rightarrow> (self, Inl raise_unbound))"

definition add_key :: "RecordAggregator \<Rightarrow> record_type \<Rightarrow> py_record list \<Rightarrow> RecordAggregator" where
  "add_key self record_type records = dict_setitem self record_type records"

text \<open>An optional list argument: \<open>not xs\<close> holds for \<open>None\<close> and for the empty list.\<close>

definition truthy :: "'a list option \<Rightarrow> bool" where
  "truthy xs = (case xs of None \<Rightarrow> False | Some l \<Rightarrow> l \<noteq> [])"

definition items :: "'a list option \<Rightarrow> 'a list" where
  "items xs = (case xs of None \<Rightarrow> [] | Some l \<Rightarrow> l)"

text \<open>
  The loop of the second branch of \<open>filter_records\<close>: the argument
  \<open>self._records[record_type]\<close> is evaluated (on the defaultdict), then stored in the copy.
  The \<open>except KeyError\<close> around it guards a subscript that cannot raise.
\<close>

fun copy_buckets ::
  "RecordAggregator \<Rightarrow> record_type list \<Rightarrow> RecordAggregator \<Rightarrow> RecordAggregator \<times> RecordAggregator" where
  "copy_buckets self [] filtered_records = (self, filtered_records)"
| "copy_buckets self (record_type # record_types) filtered_records =
    (let (bucket, self1) = defaultdict_getitem self record_type
     in copy_buckets self1 record_types (add_key filtered_records record_type bucket))"

text \<open>The inner loop of the last branch: insert the records of one bucket that pass \<open>f\<close>.\<close>

fun insert_matching ::
  "RecordAggregator \<Rightarrow> (py_record \<Rightarrow> bool) \<Rightarrow> py_record list
    \<Rightarrow> RecordAggregator \<times> (error + unit)" where
  "insert_matching filtered_records f [] = (filtered_records, Inr ())"
| "insert_matching filtered_records f (record # records) =
    (if f record then
       (case insert_record filtered_records (Rec record) of
          (filtered1, Inl e) \<Rightarrow> (filtered1, Inl e)
        | (filtered1, Inr _) \<Rightarrow> insert_matching filtered1 f records)
     else insert_matching filtered_records f records)"

text \<open>The outer loop over \<open>zip(record_types, filters)\<close>.\<close>

fun filter_loop ::
  "RecordAggregator \<Rightarrow> (record_type \<times> (py_record \<Rightarrow> bool)) list \<Rightarrow> RecordAggregator
    \<Rightarrow> RecordAggregator \<times> (error + RecordAggregator)" where
  "filter_loop self [] filtered_records = (self, Inr filtered_records)"
| "filter_loop self ((h, f) # hfs) filtered_records =
    (let (bucket, self1) = defaultdict_getitem self h
     in case insert_matching filtered_records f bucket of
          (filtered1, Inl e) \<Rightarrow> (self1, Inl e)
        | (filtered1, Inr _) \<Rightarrow> filter_loop self1 hfs filtered1)"

text \<open>
  \<open>filter_records\<close>: the source aggregator after the call, and the new aggregator or the
  exception.
\<close>

definition filter_records ::
  "RecordAggregator \<Rightarrow> record_type list option \<Rightarrow> (py_record \<Rightarrow> bool) list option
    \<Rightarrow> RecordAggregator \<times> (error + RecordAggregator)" where
  "filter_records self record_types filters =
    (if \<not> truthy record_types \<and> \<not> truthy filters then
       (self, Inr (fold (\<lambda>(record_type, records) filtered_records.
                           add_key filtered_records record_type records) self []))
     else if truthy record_types \<and> \<not> truthy filters then
       (let (self1, filtered_records) = copy_buckets self (items record_types) []
        in (self1, Inr filtered_records))
     else if truthy filters \<and> \<not> truthy record_types then (self, Inl raise_unbound)
     else if length (items record_types) \<noteq> length (items filters) then
       (self, Inl raise_unbound)
     else filter_loop self (zip (items record_types) (items filters)) [])"

definition record_types :: "RecordAggregator \<Rightarrow> record_type list" where
  "record_types self = map fst self"

text \<open>
  \<open>total\<close>: a class object is truthy, so \<open>if record_type\<close> separates a given class from
  \<open>None\<close>. The subscripts are on present keys and leave the dictionary as it is.
\<close>

definition total_records :: "RecordAggregator \<Rightarrow> record_type option \<Rightarrow> error + nat" where
  "total_records self record_type =
    (case record_type of
       Some t \<Rightarrow>
         (if \<not> dict_contains self t then Inl raise_unbound
          else Inr (length (fst (defaultdict_getitem self t))))
     | None \<Rightarrow> Inr (sum_list (map (\<lambda>k. length (fst (defaultdict_getitem self k))) (map fst self))))"

text \<open>
  \<open>aggregate\<close>: the loop over the requested classes, with the dictionary built so far.
  A reducer takes the list of values and returns a value or raises.
\<close>

fun aggregate_loop ::
  "RecordAggregator \<Rightarrow> (real list \<Rightarrow> error + real) \<Rightarrow> record_type list
    \<Rightarrow> (record_type \<times> real) list \<Rightarrow> RecordAggregator \<times> (error + (record_type \<times> real) list)" where
  "aggregate_loop self reduce_func [] aggregated_records = (self, Inr aggregated_records)"
| "aggregate_loop self reduce_func (record_type # rts) aggregated_records =
    (let (bucket, self1) = defaultdict_getitem self record_type
     in case reduce_func (map rvalue bucket) of
          Inl e \<Rightarrow> (self1, Inl e)
        | Inr v \<Rightarrow> aggregate_loop self1 reduce_func rts
                    (dict_setitem aggregated_records record_type v))"

definition aggregate ::
  "RecordAggregator \<Rightarrow> record_type list option \<Rightarrow> (real list \<Rightarrow> error + real)
    \<Rightarrow> RecordAggregator \<times> (error + (record_type \<times> real) list)" where
  "aggregate self rts reduce_func =
    aggregate_loop self reduce_func
      (if \<not> truthy rts then record_types self else items rts) []"

text \<open>
  \<open>groupby\<close>, first loop: the set of values of the criterion over the bucket. Python's
  iteration order over a set is unspecified; the model keeps the values in the order of
  their first occurrence. The criterion may raise.
\<close>

fun field_values ::
  "(py_record \<Rightarrow> error + 'k) \<Rightarrow> py_record list \<Rightarrow> 'k list \<Rightarrow> error + 'k list" where
  "field_values groupby_criteria [] acc = Inr acc"
| "field_values groupby_criteria (record # records) acc =
    (case groupby_criteria record of
       Inl e \<Rightarrow> Inl e
     | Inr k \<Rightarrow> field_values groupby_criteria records (if k \<in> set acc then acc else acc @ [k]))"

text \<open>
  Second loop: one filtered copy and one reduction per value. The filter is the lambda
  \<open>groupby_criteria(record) == field_value\<close>, called on records on which the criterion has
  already returned in the first loop.
\<close>

fun groupby_loop ::
  "RecordAggregator \<Rightarrow> record_type \<Rightarrow> (py_record \<Rightarrow> error + 'k) \<Rightarrow> (real list \<Rightarrow> error + real)
    \<Rightarrow> 'k list \<Rightarrow> ('k \<times> real) list \<Rightarrow> RecordAggregator \<times> (error + ('k \<times> real) list)" where
  "groupby_loop self record_type groupby_criteria reduce_func [] groupby_result =
    (self, Inr groupby_result)"
| "groupby_loop self record_type groupby_criteria reduce_func (field_value # fvs) groupby_result =
    (case filter_records self (Some [record_type])
            (Some [\<lambda>record. groupby_criteria record = Inr field_value]) of
       (self1, Inl e) \<Rightarrow> (self1, Inl e)
     | (self1, Inr filtered) \<Rightarrow>
         (case aggregate filtered (Some [record_type]) reduce_func of
            (_, Inl e) \<Rightarrow> (self1, Inl e)
          | (_, Inr aggregated_result) \<Rightarrow>
              (case dict_getitem aggregated_result record_type of
                 Inl e \<Rightarrow> (self1, Inl e)
               | Inr v \<Rightarrow> groupby_loop self1 record_type groupby_criteria reduce_func fvs
                           (dict_setitem groupby_result field_value v))))"

definition groupby ::
  "RecordAggregator \<Rightarrow> record_type \<Rightarrow> (py_record \<Rightarrow> error + 'k) \<Rightarrow> (real list \<Rightarrow> error + real)
    \<Rightarrow> RecordAggregator \<times> (error + ('k \<times> real) list)" where
  "groupby self record_type groupby_criteria reduce_func =
    (case filter_records self (Some [record_type]) None of
       (self1, Inl e) \<Rightarrow> (self1, Inl e)
     | (self1, Inr records) \<Rightarrow>
         (case field_values groupby_criteria (fst (defaultdict_getitem records record_type)) [] of
            Inl e \<Rightarrow> (self1, Inl e)
          | Inr fvs \<Rightarrow> groupby_loop self1 record_type groupby_criteria reduce_func fvs []))"

text \<open>
  The records an aggregator holds for a class: its bucket, and no record when the class is
  not a key. This is what \<open>self._records[record_type]\<close> evaluates to.
\<close>

definition bucket :: "RecordAggregator \<Rightarrow> record_type \<Rightarrow> py_record list" where
  "bucket self t = (case map_of self t of None \<Rightarrow> [] | Some b \<Rightarrow> b)"

text \<open>The records among the objects handed to \<open>insert\<close>.\<close>

fun records_of :: "py_object list \<Rightarrow> py_record list" where
  "records_of [] = []"
| "records_of (Rec r # objs) = r # records_of objs"
| "records_of (NotARecord # objs) = records_of objs"

text \<open>A dictionary holds each key once.\<close>

definition dict_ok :: "('k \<times> 'v) list \<Rightarrow> bool" where
  "dict_ok d = distinct (map fst d)"

text \<open>An aggregator as a program builds it: a fresh one after a sequence of \<open>insert\<close> calls,
  a call that raises leaving the aggregator as it was.\<close>

fun inserts :: "RecordAggregator \<Rightarrow> py_object list \<Rightarrow> RecordAggregator" where
  "inserts self [] = self"
| "inserts self (obj # objs) = inserts (fst (insert_record self obj)) objs"


section \<open>analyzer.py: Analyzer.\_profile\<close>

text \<open>The fields of the analyzer that \<open>_profile\<close> reads.\<close>

record Analyzer =
  dcgm_tags :: "record_type list"
  perf_tags :: "record_type list"
  duration_seconds :: real

text \<open>
  Modelled from the spec: \<open>DCGMMonitor\<close> and \<open>PerfAnalyzer\<close> (monitor/dcgm/dcgm\_monitor.py,
  perf\_analyzer/perf\_analyzer.py) are not part of the sources at hand. Per the spec
  (section 6) the telemetry collaborator has a start call and a stop call that returns the
  samples taken in between, and the workload collaborator has \<open>run(tags)\<close>, which returns
  the run's records or fails. The calls \<open>_profile\<close> makes on them, and its \<open>time.sleep\<close>,
  are recorded in order in a trace; the samples the monitor returns and the behaviour of
  \<open>run\<close> are parameters.
\<close>

datatype event =
    start_recording_metrics
  | stop_recording_metrics
  | perf_analyzer_run "record_type list"
  | sleep real

type_synonym PerfAnalyzer = "record_type list \<Rightarrow> error + py_object list"

text \<open>The nested function \<open>gpu_device_id\<close>: \<open>record.device().device_id()\<close>.\<close>

definition gpu_device_id :: "py_record \<Rightarrow> error + nat" where
  "gpu_device_id record =
    (case rdevice record of None \<Rightarrow> Inl NoDeviceError | Some d \<Rightarrow> Inr (device_id d))"

text \<open>
  What the claims ask of a per-device reduction \<open>m\<close> of a list \<open>b\<close> of records: its keys
  are the device ids observed in \<open>b\<close>, each once, and each key is mapped to the maximum
  of the values of the records of \<open>b\<close> on that device.
\<close>

definition device_maxima :: "py_record list \<Rightarrow> (nat \<times> real) list \<Rightarrow> bool" where
  "device_maxima b m =
    (distinct (map fst m)
     \<and> set (map fst m) = set (map device_id (List.map_filter rdevice b))
     \<and> (\<forall>d \<in> set (map fst m).
           map_of m d = Some (Max (set (map rvalue [r \<leftarrow> b. gpu_device_id r = Inr d])))))"

text \<open>\<open>for record in records: aggregator.insert(record)\<close>, stopping at the first raise.\<close>

fun insert_all ::
  "RecordAggregator \<Rightarrow> py_object list \<Rightarrow> RecordAggregator \<times> (error + unit)" where
  "insert_all agg [] = (agg, Inr ())"
| "insert_all agg (obj # objs) =
    (case insert_record agg obj of
       (agg1, Inl e) \<Rightarrow> (agg1, Inl e)
     | (agg1, Inr _) \<Rightarrow> insert_all agg1 objs)"

text \<open>\<open>for tag in self.dcgm_tags: records_groupby_gpu[tag] = record_aggregator.groupby(...)\<close>.\<close>

fun groupby_tags ::
  "RecordAggregator \<Rightarrow> record_type list \<Rightarrow> (record_type \<times> (nat \<times> real) list) list
    \<Rightarrow> RecordAggregator \<times> (error + (record_type \<times> (nat \<times> real) list) list)" where
  "groupby_tags agg [] records_groupby_gpu = (agg, Inr records_groupby_gpu)"
| "groupby_tags agg (tag # tags) records_groupby_gpu =
    (case groupby agg tag gpu_device_id py_max of
       (agg1, Inl e) \<Rightarrow> (agg1, Inl e)
     | (agg1, Inr g) \<Rightarrow> groupby_tags agg1 tags (dict_setitem records_groupby_gpu tag g))"

text \<open>The part of \<open>_profile\<close> after the monitor has been stopped (lines 301 to 317).\<close>

definition aggregate_records ::
  "Analyzer \<Rightarrow> py_object list \<Rightarrow> py_object list
    \<Rightarrow> error + ((record_type \<times> (nat \<times> real) list) list \<times> (record_type \<times> real) list)" where
  "aggregate_records self dcgm_records perf_records =
    (case insert_all [] dcgm_records of
       (_, Inl e) \<Rightarrow> Inl e
     | (record_aggregator, Inr _) \<Rightarrow>
         (case groupby_tags record_aggregator (dcgm_tags self) [] of
            (_, Inl e) \<Rightarrow> Inl e
          | (_, Inr records_groupby_gpu) \<Rightarrow>
              (case insert_all [] perf_records of
                 (_, Inl e) \<Rightarrow> Inl e
               | (perf_record_aggregator, Inr _) \<Rightarrow>
                   (case aggregate perf_record_aggregator None py_max of
                      (_, Inl e) \<Rightarrow> Inl e
                    | (_, Inr perf) \<Rightarrow> Inr (records_groupby_gpu, perf)))))"

text \<open>
  \<open>_profile\<close>: the trace of calls on the collaborators, and the pair of mappings returned
  or the exception that leaves the function. \<open>perf_analyzer\<close> is \<open>None\<close> for a server-only
  cycle. Only \<open>FileNotFoundError\<close> is caught and re-raised as TritonModelAnalyzerException
  (analyzer.py imports that name); any other exception of \<open>run\<close> leaves as it is.
  \<open>time.sleep\<close> raises \<open>ValueError\<close> on a negative duration, which nothing catches: the
  function is left before the monitor is stopped.
\<close>

definition profile ::
  "Analyzer \<Rightarrow> PerfAnalyzer option \<Rightarrow> py_object list
    \<Rightarrow> event list \<times>
       (error + ((record_type \<times> (nat \<times> real) list) list \<times> (record_type \<times> real) list))" where
  "profile self perf_analyzer dcgm_records =
    (case perf_analyzer of
       Some run \<Rightarrow>
         (case run (perf_tags self) of
            Inl (FileNotFoundError e) \<Rightarrow>
              ([start_recording_metrics, perf_analyzer_run (perf_tags self)],
               Inl (TritonModelAnalyzerException (''perf_analyzer binary not found : '' @ e)))
          | Inl e \<Rightarrow>
              ([start_recording_metrics, perf_analyzer_run (perf_tags self)], Inl e)
          | Inr perf_records \<Rightarrow>
              ([start_recording_metrics, perf_analyzer_run (perf_tags self),
                stop_recording_metrics],
               aggregate_records self dcgm_records perf_records))
     | None \<Rightarrow>
         (if duration_seconds self < 0 then
            ([start_recording_metrics, sleep (duration_seconds self)], Inl ValueError)
          else
            ([start_recording_metrics, sleep (duration_seconds self), stop_recording_metrics],
             aggregate_records self dcgm_records [])))"


section \<open>PerfAnalyzerConfig: assignment and lookup\<close>

lemma dict_contains_setitem:
  "dict_contains (dict_setitem d k v) k' = (k' = k \<or> dict_contains d k')"
  by (auto simp: dict_contains_def dict_setitem_def dom_update)

lemma dict_getitem_setitem: "dict_getitem (dict_setitem d k v) k = Inr v"
  by (simp add: dict_getitem_def dict_setitem_def update_conv')

lemma dict_getitem_contains:
  "dict_contains d k \<Longrightarrow> \<exists>v. dict_getitem d k = Inr v"
  by (cases "map_of d k") (auto simp: dict_contains_def dict_getitem_def map_of_eq_None_iff)

lemma setitem_args_keys:
  "dict_contains (p_args (fst (setitem c key v))) k = dict_contains (p_args c) k"
  by (auto simp: setitem_def dict_contains_setitem split: sum.splits)

lemma setitems_args_keys:
  "dict_contains (p_args (setitems c kvs)) k = dict_contains (p_args c) k"
  by (induction c kvs rule: setitems.induct) (simp_all add: setitem_args_keys)

lemma setitem_recognized:
  assumes "dict_contains (p_args c) key \<or> dict_contains input_to_options key
           \<or> dict_contains input_to_verbose key"
  shows "snd (setitem c key v) = Inr () \<and> getitem (fst (setitem c key v)) key = Inr v"
proof (cases "dict_contains (p_args c) key")
  case True
  then show ?thesis
    by (simp add: setitem_def getitem_def dict_contains_setitem dict_getitem_setitem)
next
  case notargs: False
  show ?thesis
  proof (cases "dict_contains input_to_options key")
    case True
    from dict_getitem_contains [OF True]
    obtain opt where "dict_getitem input_to_options key = Inr opt" ..
    with notargs True show ?thesis
      by (simp add: setitem_def getitem_def dict_getitem_setitem)
  next
    case False
    with notargs assms have v: "dict_contains input_to_verbose key" by simp
    from dict_getitem_contains [OF v]
    obtain opt where "dict_getitem input_to_verbose key = Inr opt" ..
    with notargs False v show ?thesis
      by (simp add: setitem_def getitem_def dict_getitem_setitem)
  qed
qed

lemma setitem_unrecognized:
  assumes "\<not> dict_contains (p_args c) key" "\<not> dict_contains input_to_options key"
    "\<not> dict_contains input_to_verbose key"
  shows "setitem c key v = (c, Inl (TritonModelAnalyzerException
            (''The argument '' @ squote @ key @ squote @
             '' to the perf_analyzer is not supported by the model analyzer.'')))"
    and "getitem c key =
      Inl (TritonModelAnalyzerException (squote @ key @ squote @ '' Key not found in config''))"
  using assms by (simp_all add: setitem_def getitem_def)

text \<open>
  C10. Set/get round trip of PerfAnalyzerConfig. On every config obtained from a fresh one
  by any sequence of assignments: for a recognised key (a long-form argument, an option
  alias or a verbose alias) and any value \<open>v\<close>, \<open>config[key] = v\<close> returns normally and
  \<open>config[key]\<close> then reads \<open>v\<close>; for an unrecognised key the assignment raises
  TritonModelAnalyzerException and leaves the object as it was, and the lookup raises
  TritonModelAnalyzerException too.
\<close>

theorem config_set_get_roundtrip:
  fixes v :: "'v option"
  shows "(recognized key \<longrightarrow>
            snd (setitem (setitems init_config kvs) key v) = Inr ()
          \<and> getitem (fst (setitem (setitems init_config kvs) key v)) key = Inr v)
       \<and> (\<not> recognized key \<longrightarrow>
            setitem (setitems init_config kvs) key v =
              (setitems init_config kvs,
               Inl (TritonModelAnalyzerException
                 (''The argument '' @ squote @ key @ squote @
                  '' to the perf_analyzer is not supported by the model analyzer.'')))
          \<and> getitem (setitems init_config kvs) key =
              Inl (TritonModelAnalyzerException
                 (squote @ key @ squote @ '' Key not found in config'')))"
proof -
  let ?c = "setitems (init_config :: 'v PerfAnalyzerConfig) kvs"
  have keys: "dict_contains (p_args ?c) key
                = dict_contains (p_args (init_config :: unit PerfAnalyzerConfig)) key"
    by (simp add: setitems_args_keys) (simp add: init_config_def dict_contains_def)
  show ?thesis
  proof (intro conjI impI)
    assume "recognized key"
    then have r: "dict_contains (p_args ?c) key \<or> dict_contains input_to_options key
                  \<or> dict_contains input_to_verbose key"
      by (simp add: recognized_def keys)
    from setitem_recognized [OF r, of v]
    show "snd (setitem ?c key v) = Inr ()"
      and "getitem (fst (setitem ?c key v)) key = Inr v"
      by simp_all
  next
    assume "\<not> recognized key"
    then have n: "\<not> dict_contains (p_args ?c) key" "\<not> dict_contains input_to_options key"
      "\<not> dict_contains input_to_verbose key"
      by (simp_all add: recognized_def keys)
    from setitem_unrecognized [OF n]
    show "setitem ?c key v =
            (?c, Inl (TritonModelAnalyzerException
               (''The argument '' @ squote @ key @ squote @
                '' to the perf_analyzer is not supported by the model analyzer.'')))"
      and "getitem ?c key =
            Inl (TritonModelAnalyzerException (squote @ key @ squote @ '' Key not found in config''))"
      by simp_all
  qed
qed

theorem config_set_get_roundtrip_witness:
  "recognized ''model-name''
   \<and> snd (setitem (setitems init_config [(''batch-size'', Some 8)]) ''model-name''
           (Some (1::nat))) = Inr ()
   \<and> getitem (fst (setitem (setitems init_config [(''batch-size'', Some 8)]) ''model-name''
           (Some (1::nat)))) ''model-name'' = Inr (Some 1)
   \<and> \<not> recognized ''no-such-arg''
   \<and> fst (setitem (setitems init_config []) ''no-such-arg'' (Some (1::nat)))
       = setitems init_config []
   \<and> getitem (setitems (init_config :: nat PerfAnalyzerConfig) []) ''no-such-arg''
       = Inl (TritonModelAnalyzerException (squote @ ''no-such-arg'' @ squote @
            '' Key not found in config''))"
proof -
  have r: "recognized ''model-name''"
    by (simp add: recognized_def dict_contains_def input_to_options_def)
  have n: "\<not> recognized ''no-such-arg''"
    by (simp add: recognized_def dict_contains_def input_to_options_def
        input_to_verbose_def init_config_def)
  from r n
    config_set_get_roundtrip [of "''model-name''" "[(''batch-size'', Some 8)]" "Some (1::nat)"]
    config_set_get_roundtrip [of "''no-such-arg''" "[]" "Some (1::nat)"]
  show ?thesis by simp
qed


section \<open>Dictionaries, buckets and \<open>insert\<close>\<close>

lemma py_max_Max: "xs \<noteq> [] \<Longrightarrow> py_max xs = Inr (Max (set xs))"
proof -
  have fold_max: "fold (\<lambda>item m. if m < item then item else m) ys (x::real) = Max (set (x # ys))" for x ys
  proof (induction ys arbitrary: x)
    case Nil
    then show ?case by simp
  next
    case (Cons y ys)
    have "Max (set ((if x < y then y else x) # ys)) = Max (set (x # y # ys))"
      by (cases ys) (auto simp: max_def)
    with Cons show ?case by simp
  qed
  assume "xs \<noteq> []"
  then obtain x ys where "xs = x # ys" by (cases xs) auto
  then show ?thesis by (simp only: py_max.simps fold_max)
qed

lemma getitem_fst: "fst (defaultdict_getitem d k) = bucket d k"
  by (simp add: defaultdict_getitem_def bucket_def split: option.splits)

lemma getitem_present: "map_of d k = Some b \<Longrightarrow> defaultdict_getitem d k = (b, d)"
  by (simp add: defaultdict_getitem_def)

lemma getitem_absent:
  "map_of d k = None \<Longrightarrow> defaultdict_getitem d k = ([], dict_setitem d k [])"
  by (simp add: defaultdict_getitem_def)

lemma map_of_setitem: "map_of (dict_setitem d k v) = (map_of d)(k \<mapsto> v)"
  by (simp add: dict_setitem_def update_conv')

lemma bucket_setitem: "bucket (dict_setitem d k v) t = (if t = k then v else bucket d t)"
  by (simp add: bucket_def map_of_setitem)

lemma bucket_getitem_snd: "bucket (snd (defaultdict_getitem d k)) t = bucket d t"
  by (auto simp: defaultdict_getitem_def bucket_setitem split: option.splits) (simp add: bucket_def)

lemma keys_setitem: "set (map fst (dict_setitem d k v)) = insert k (set (map fst d))"
  using dom_update [of k v d] by (simp add: dict_setitem_def)

lemma distinct_setitem: "distinct (map fst d) \<Longrightarrow> distinct (map fst (dict_setitem d k v))"
  by (simp add: dict_setitem_def distinct_update)

lemma distinct_getitem_snd:
  "distinct (map fst d) \<Longrightarrow> distinct (map fst (snd (defaultdict_getitem d k)))"
  by (auto simp: defaultdict_getitem_def distinct_setitem split: option.splits)

lemma insert_Rec:
  "insert_record self (Rec r) =
     (dict_setitem (snd (defaultdict_getitem self (rtype r))) (rtype r) (bucket self (rtype r) @ [r]), Inr ())"
  by (simp add: insert_record_def getitem_fst [symmetric] split: prod.splits)

lemma bucket_insert_Rec:
  "bucket (fst (insert_record self (Rec r))) t = bucket self t @ (if rtype r = t then [r] else [])"
  by (auto simp: insert_Rec bucket_setitem bucket_getitem_snd)

lemma distinct_insert:
  "distinct (map fst self) \<Longrightarrow> distinct (map fst (fst (insert_record self obj)))"
proof (cases obj)
  case (Rec r)
  assume "distinct (map fst self)"
  with Rec show ?thesis
    by (simp add: insert_Rec distinct_setitem distinct_getitem_snd)
next
  case NotARecord
  assume "distinct (map fst self)"
  with NotARecord show ?thesis by (simp add: insert_record_def)
qed


lemma map_of_getitem_snd:
  "map_of (snd (defaultdict_getitem d k)) = (map_of d)(k \<mapsto> bucket d k)"
  by (auto simp: defaultdict_getitem_def map_of_setitem bucket_def split: option.splits)

lemma bucket_insert:
  "bucket (fst (insert_record self obj)) t =
     bucket self t @ [r \<leftarrow> records_of [obj]. rtype r = t]"
  by (cases obj) (simp_all add: bucket_insert_Rec, simp add: insert_record_def)

lemma bucket_inserts:
  "bucket (inserts self objs) t = bucket self t @ [r \<leftarrow> records_of objs. rtype r = t]"
proof (induction objs arbitrary: self)
  case Nil
  show ?case by simp
next
  case (Cons obj objs)
  show ?case by (cases obj) (simp_all add: Cons.IH bucket_insert)
qed

lemma distinct_inserts:
  "distinct (map fst self) \<Longrightarrow> distinct (map fst (inserts self objs))"
  by (induction objs arbitrary: self) (simp_all add: distinct_insert)

lemma bucket_of_member:
  "distinct (map fst self) \<Longrightarrow> (t, b) \<in> set self \<Longrightarrow> bucket self t = b"
  by (simp add: bucket_def)

lemma total_known:
  "dict_contains self t \<Longrightarrow> total_records self (Some t) = Inr (length (bucket self t))"
  by (simp add: total_records_def getitem_fst)

lemma total_all:
  "total_records self None = Inr (sum_list (map (\<lambda>t. length (bucket self t)) (record_types self)))"
  by (simp add: total_records_def getitem_fst record_types_def)

section \<open>Claims on \<open>insert\<close> and \<open>total\<close>\<close>

text \<open>
  C7. Bucket integrity. After every sequence of \<open>insert\<close> calls on a fresh aggregator
  (calls that raise included), \<open>total()\<close> returns the sum of the numbers that
  \<open>total(tag)\<close> returns for the tags of \<open>record_types()\<close>, none of which raises, and
  every record stored in the bucket of a tag is of that class.
\<close>

theorem bucket_integrity:
  "(\<exists>ns. map (\<lambda>t. total_records (inserts [] objs) (Some t)) (record_types (inserts [] objs))
           = map Inr ns
        \<and> total_records (inserts [] objs) None = Inr (sum_list ns))
   \<and> (\<forall>(t, b) \<in> set (inserts [] objs). \<forall>r \<in> set b. rtype r = t)"
proof
  let ?a = "inserts [] objs"
  let ?ns = "map (\<lambda>t. length (bucket ?a t)) (record_types ?a)"
  have "map (\<lambda>t. total_records ?a (Some t)) (record_types ?a) = map Inr ?ns"
    by (simp add: total_known dict_contains_def record_types_def)
  moreover have "total_records ?a None = Inr (sum_list ?ns)"
    by (rule total_all)
  ultimately show "\<exists>ns. map (\<lambda>t. total_records ?a (Some t)) (record_types ?a) = map Inr ns
        \<and> total_records ?a None = Inr (sum_list ns)"
    by blast
  have d: "distinct (map fst ?a)" by (rule distinct_inserts) simp
  show "\<forall>(t, b) \<in> set ?a. \<forall>r \<in> set b. rtype r = t"
  proof (clarify)
    fix t b r
    assume "(t, b) \<in> set ?a" and r: "r \<in> set b"
    with d have "bucket ?a t = b" by (simp add: bucket_of_member)
    then have "b = [x \<leftarrow> records_of objs. rtype x = t]"
      by (simp add: bucket_inserts) (simp add: bucket_def)
    with r show "rtype r = t" by simp
  qed
qed

theorem bucket_integrity_witness:
  "(GPUUsedMemory, [Record GPUUsedMemory (Some (GPUDevice 0)) 10 0])
     \<in> set (inserts [] [Rec (Record GPUUsedMemory (Some (GPUDevice 0)) 10 0), NotARecord,
                        Rec (Record PerfThroughput None 100 1)])
   \<and> rtype (Record GPUUsedMemory (Some (GPUDevice 0)) 10 0) = GPUUsedMemory
   \<and> total_records (inserts [] [Rec (Record GPUUsedMemory (Some (GPUDevice 0)) 10 0), NotARecord,
                        Rec (Record PerfThroughput None 100 1)]) None = Inr 2"
  using bucket_integrity [of "[Rec (Record GPUUsedMemory (Some (GPUDevice 0)) 10 0), NotARecord,
                        Rec (Record PerfThroughput None 100 1)]"]
  by (simp add: insert_record_def defaultdict_getitem_def dict_setitem_def total_records_def)

section \<open>Claims on the failure paths\<close>

text \<open>
  C1. Cleanup on failure. When \<open>perf_analyzer.run\<close> raises \<open>FileNotFoundError\<close>,
  \<open>_profile\<close> re-raises it as TritonModelAnalyzerException, as claimed, but the trace of
  calls on the monitor ends with the workload: \<open>stop_recording_metrics\<close> is called zero
  times on this path, whereas the claim requires exactly one call before the exception
  leaves. The normal path of the same function does stop the monitor.
\<close>

theorem profile_binary_not_found_no_stop:
  "profile self (Some (\<lambda>tags. Inl (FileNotFoundError path))) dcgm_records =
     ([start_recording_metrics, perf_analyzer_run (perf_tags self)],
      Inl (TritonModelAnalyzerException (''perf_analyzer binary not found : '' @ path)))
   \<and> count_list (fst (profile self (Some (\<lambda>tags. Inl (FileNotFoundError path))) dcgm_records))
        stop_recording_metrics = 0"
  by (simp add: profile_def)

text \<open>
  C2. Filtering by record types only. On an aggregator into which nothing was ever
  inserted, \<open>filter_records(record_types=[GPUUsedMemory])\<close> returns normally, with a new
  aggregator that holds an empty bucket for the requested class, where the claim requires
  a failure: the subscript on the \<open>defaultdict\<close> creates the key instead of raising the
  \<open>KeyError\<close> the \<open>except\<close> clause waits for.
\<close>

theorem filter_unknown_type_returns:
  "filter_records [] (Some [GPUUsedMemory]) None
     = ([(GPUUsedMemory, [])], Inr [(GPUUsedMemory, [])])"
  by (simp add: filter_records_def truthy_def items_def defaultdict_getitem_def
      dict_setitem_def add_key_def)

text \<open>
  C3. Filtering must leave the source as it is. Filtering an aggregator that holds one
  throughput record by the class \<open>GPUUsedMemory\<close>, which it does not hold, with a filter
  that accepts everything, leaves the source with a new empty bucket for that class: its
  \<open>record_types()\<close> differ before and after the call.
\<close>

theorem filter_mutates_source:
  "fst (filter_records [(PerfThroughput, [Record PerfThroughput None 100 0])]
          (Some [GPUUsedMemory]) (Some [\<lambda>record. True]))
     = [(PerfThroughput, [Record PerfThroughput None 100 0]), (GPUUsedMemory, [])]
   \<and> record_types (fst (filter_records [(PerfThroughput, [Record PerfThroughput None 100 0])]
          (Some [GPUUsedMemory]) (Some [\<lambda>record. True])))
     \<noteq> record_types [(PerfThroughput, [Record PerfThroughput None 100 0])]"
  by (simp add: filter_records_def truthy_def items_def defaultdict_getitem_def
      dict_setitem_def record_types_def)

text \<open>
  C8. Filter arity. With filters but no record types, and with two record types and one
  filter, \<open>filter_records\<close> returns no aggregator and leaves the source as it is, as
  claimed; but the exception that leaves is \<open>NameError\<close> in both cases, since the module
  never binds the name of the exception class it means to raise: neither an
  invalid-argument error nor an arity error, and the two cases cannot be told apart.
\<close>

theorem filter_arity_raises_NameError:
  "filter_records self None (Some (f # fs)) = (self, Inl (NameError ''TritonModelAnalyzerException''))
   \<and> filter_records self (Some [t1, t2]) (Some [f])
       = (self, Inl (NameError ''TritonModelAnalyzerException''))"
  by (simp add: filter_records_def truthy_def items_def raise_unbound_def)

section \<open>\<open>aggregate\<close>, \<open>filter_records\<close> and \<open>groupby\<close> on one bucket\<close>

lemma getitem_known: "map_of d k \<noteq> None \<Longrightarrow> defaultdict_getitem d k = (bucket d k, d)"
  by (auto simp: defaultdict_getitem_def bucket_def)

lemma setitem_fresh: "k \<notin> set (map fst d) \<Longrightarrow> dict_setitem d k v = d @ [(k, v)]"
  unfolding dict_setitem_def by (induction d) auto

lemma fold_setitem_fresh:
  "distinct ts \<Longrightarrow> set ts \<inter> set (map fst acc) = {} \<Longrightarrow>
    fold (\<lambda>t acc. dict_setitem acc t (g t)) ts acc = acc @ map (\<lambda>t. (t, g t)) ts"
proof (induction ts arbitrary: acc)
  case Nil
  show ?case by simp
next
  case (Cons t ts)
  from Cons.prems have fresh: "t \<notin> set (map fst acc)" by auto
  from Cons.prems have "set ts \<inter> set (map fst (acc @ [(t, g t)])) = {}" by auto
  with Cons.prems Cons.IH [of "acc @ [(t, g t)]"] fresh show ?case
    by (simp add: setitem_fresh)
qed

lemma map_of_fold_setitem:
  "map_of (fold (\<lambda>t acc. dict_setitem acc t (g t)) ts acc) k
     = (if k \<in> set ts then Some (g k) else map_of acc k)"
  by (induction ts arbitrary: acc rule: rev_induct) (auto simp: map_of_setitem)

lemma keys_fold_setitem:
  "set (map fst (fold (\<lambda>t acc. dict_setitem acc t (g t)) ts acc)) = set ts \<union> set (map fst acc)"
  by (induction ts arbitrary: acc) (auto simp: keys_setitem simp del: set_map)

lemma distinct_fold_setitem:
  "distinct (map fst acc) \<Longrightarrow> distinct (map fst (fold (\<lambda>t acc. dict_setitem acc t (g t)) ts acc))"
  by (induction ts arbitrary: acc) (simp_all add: distinct_setitem)

lemma aggregate_loop_ok:
  assumes "\<forall>t \<in> set ts. map_of self t \<noteq> None"
    and "\<forall>t \<in> set ts. reduce_func (map rvalue (bucket self t)) = Inr (g t)"
  shows "aggregate_loop self reduce_func ts acc
           = (self, Inr (fold (\<lambda>t acc. dict_setitem acc t (g t)) ts acc))"
  using assms
proof (induction ts arbitrary: acc)
  case Nil
  show ?case by simp
next
  case (Cons t ts)
  then show ?case by (simp add: getitem_known)
qed

lemma aggregate_all_max:
  assumes ok: "dict_ok self" and ne: "\<forall>(t, b) \<in> set self. b \<noteq> []"
  shows "aggregate self None py_max
           = (self, Inr (map (\<lambda>(t, b). (t, Max (set (map rvalue b)))) self))"
proof -
  let ?g = "\<lambda>t. Max (set (map rvalue (bucket self t)))"
  from ok have d: "distinct (map fst self)" by (simp add: dict_ok_def)
  have mem: "bucket self t = b" if "(t, b) \<in> set self" for t b
    using d that by (rule bucket_of_member)
  have present: "\<forall>t \<in> set (map fst self). map_of self t \<noteq> None"
    by (auto simp: map_of_eq_None_iff)
  have red: "\<forall>t \<in> set (map fst self). py_max (map rvalue (bucket self t)) = Inr (?g t)"
  proof
    fix t assume "t \<in> set (map fst self)"
    then obtain b where tb: "(t, b) \<in> set self" by auto
    with ne mem have "bucket self t \<noteq> []" by auto
    then show "py_max (map rvalue (bucket self t)) = Inr (?g t)"
      by (simp add: py_max_Max)
  qed
  have "aggregate self None py_max
          = (self, Inr (fold (\<lambda>t acc. dict_setitem acc t (?g t)) (map fst self) []))"
    unfolding aggregate_def
    by (simp add: truthy_def record_types_def aggregate_loop_ok [OF present red])
  also have "fold (\<lambda>t acc. dict_setitem acc t (?g t)) (map fst self) []
               = map (\<lambda>t. (t, ?g t)) (map fst self)"
    using d by (simp add: fold_setitem_fresh)
  also have "\<dots> = map (\<lambda>(t, b). (t, Max (set (map rvalue b)))) self"
    using mem by (auto simp: map_eq_conv)
  finally show ?thesis .
qed


lemma records_of_Rec: "records_of (map Rec rs) = rs"
  by (induction rs) simp_all

lemma insert_matching_eq:
  "insert_matching filtered f b = (inserts filtered (map Rec (filter f b)), Inr ())"
  by (induction b arbitrary: filtered) (simp_all add: insert_Rec)

lemma bucket_empty: "bucket [] t = []"
  by (simp add: bucket_def)

lemma bucket_inserts_Rec:
  "bucket (inserts [] (map Rec rs)) t = [r \<leftarrow> rs. rtype r = t]"
  by (simp add: bucket_inserts records_of_Rec bucket_empty)

lemma filter_one:
  "filter_records self (Some [rt]) (Some [p])
     = (snd (defaultdict_getitem self rt),
        Inr (inserts [] (map Rec (filter p (bucket self rt)))))"
  by (simp add: filter_records_def truthy_def items_def insert_matching_eq
      getitem_fst [symmetric] split: prod.splits)

lemma copy_one:
  "filter_records self (Some [rt]) None
     = (snd (defaultdict_getitem self rt), Inr [(rt, bucket self rt)])"
  by (simp add: filter_records_def truthy_def items_def add_key_def dict_setitem_def
      getitem_fst [symmetric] split: prod.splits)

lemma aggregate_one:
  "snd (aggregate filtered (Some [rt]) reduce_func)
     = (case reduce_func (map rvalue (bucket filtered rt)) of
          Inl e \<Rightarrow> Inl e | Inr v \<Rightarrow> Inr [(rt, v)])"
  by (simp add: aggregate_def truthy_def items_def dict_setitem_def
      getitem_fst [symmetric] split: prod.splits sum.splits)

lemma groupby_loop_ok:
  assumes "map_of self rt \<noteq> None"
    and "\<forall>k \<in> set ks. reduce_func
           (map rvalue [r \<leftarrow> bucket self rt. crit r = Inr k \<and> rtype r = rt]) = Inr (g k)"
  shows "groupby_loop self rt crit reduce_func ks acc
           = (self, Inr (fold (\<lambda>k acc. dict_setitem acc k (g k)) ks acc))"
  using assms(2)
proof (induction ks arbitrary: acc)
  case Nil
  show ?case by simp
next
  case (Cons k ks)
  let ?F = "inserts [] (map Rec (filter (\<lambda>record. crit record = Inr k) (bucket self rt)))"
  have f: "filter_records self (Some [rt]) (Some [\<lambda>record. crit record = Inr k]) = (self, Inr ?F)"
    using assms(1) by (simp add: filter_one getitem_known)
  have "bucket ?F rt = [r \<leftarrow> bucket self rt. crit r = Inr k \<and> rtype r = rt]"
    by (simp add: bucket_inserts_Rec)
  with Cons.prems have a: "snd (aggregate ?F (Some [rt]) reduce_func) = Inr [(rt, g k)]"
    by (simp add: aggregate_one)
  obtain F' where a': "aggregate ?F (Some [rt]) reduce_func = (F', Inr [(rt, g k)])"
    using a by (cases "aggregate ?F (Some [rt]) reduce_func") simp
  from Cons.prems have rest: "\<forall>k \<in> set ks. reduce_func
           (map rvalue [r \<leftarrow> bucket self rt. crit r = Inr k \<and> rtype r = rt]) = Inr (g k)"
    by simp
  show ?case
    by (simp add: f a' dict_getitem_def Cons.IH [OF rest])
qed

lemma field_values_ok:
  assumes "\<forall>r \<in> set b. crit r = Inr (key r)"
  shows "\<exists>ks. field_values crit b acc = Inr ks \<and> set ks = set acc \<union> key ` set b
              \<and> (distinct acc \<longrightarrow> distinct ks)"
  using assms
proof (induction b arbitrary: acc)
  case Nil
  show ?case by simp
next
  case (Cons r b)
  let ?acc = "if key r \<in> set acc then acc else acc @ [key r]"
  from Cons.prems have "\<forall>r \<in> set b. crit r = Inr (key r)" by simp
  from Cons.IH [OF this, of ?acc]
  obtain ks where ks: "field_values crit b ?acc = Inr ks" "set ks = set ?acc \<union> key ` set b"
    "distinct ?acc \<longrightarrow> distinct ks" by blast
  from Cons.prems have "field_values crit (r # b) acc = field_values crit b ?acc"
    by simp
  with ks show ?case by (intro exI [of _ ks]) auto
qed

lemma groupby_general:
  assumes "\<forall>r \<in> set (bucket self rt). rtype r = rt \<and> crit r = Inr (key r)"
  shows "\<exists>m. groupby self rt crit py_max = (snd (defaultdict_getitem self rt), Inr m)
            \<and> distinct (map fst m)
            \<and> set (map fst m) = key ` set (bucket self rt)
            \<and> (\<forall>k \<in> key ` set (bucket self rt).
                 map_of m k = Some (Max (set (map rvalue [r \<leftarrow> bucket self rt. key r = k]))))"
proof -
  let ?b = "bucket self rt"
  let ?self1 = "snd (defaultdict_getitem self rt)"
  let ?g = "\<lambda>k. Max (set (map rvalue [r \<leftarrow> ?b. key r = k]))"
  have present: "map_of ?self1 rt \<noteq> None"
    by (simp add: map_of_getitem_snd)
  have b1: "bucket ?self1 rt = ?b"
    by (rule bucket_getitem_snd)
  from assms have "\<forall>r \<in> set ?b. crit r = Inr (key r)" by simp
  from field_values_ok [OF this, of "[]"]
  obtain ks where ks: "field_values crit ?b [] = Inr ks" "set ks = key ` set ?b" "distinct ks"
    by auto
  have red: "\<forall>k \<in> set ks. py_max
      (map rvalue [r \<leftarrow> bucket ?self1 rt. crit r = Inr k \<and> rtype r = rt]) = Inr (?g k)"
  proof
    fix k assume "k \<in> set ks"
    with ks obtain r0 where r0: "r0 \<in> set ?b" "key r0 = k" by auto
    have eq: "[r \<leftarrow> ?b. crit r = Inr k \<and> rtype r = rt] = [r \<leftarrow> ?b. key r = k]"
      using assms by (intro filter_cong) auto
    from r0 have "[r \<leftarrow> ?b. key r = k] \<noteq> []"
      by (auto simp: filter_empty_conv)
    then show "py_max (map rvalue [r \<leftarrow> bucket ?self1 rt. crit r = Inr k \<and> rtype r = rt])
                 = Inr (?g k)"
      by (simp add: b1 eq py_max_Max)
  qed
  let ?m = "fold (\<lambda>k acc. dict_setitem acc k (?g k)) ks []"
  have "bucket [(rt, ?b)] rt = ?b" by (simp add: bucket_def)
  then have "groupby self rt crit py_max = groupby_loop ?self1 rt crit py_max ks []"
    by (simp add: groupby_def copy_one getitem_fst ks(1))
  then have "groupby self rt crit py_max = (?self1, Inr ?m)"
    by (simp only: groupby_loop_ok [OF present red])
  moreover have "distinct (map fst ?m)"
    by (rule distinct_fold_setitem) simp
  moreover have "set (map fst ?m) = key ` set ?b"
    using keys_fold_setitem [of ?g ks "[]"] ks(2) by simp
  moreover have "\<forall>k \<in> key ` set ?b. map_of ?m k = Some (?g k)"
    using ks(2) by (simp add: map_of_fold_setitem)
  ultimately show ?thesis by blast
qed


lemma device_ids:
  assumes "\<forall>r \<in> set b. rdevice r \<noteq> None"
  shows "set (map device_id (List.map_filter rdevice b)) = (\<lambda>r. device_id (the (rdevice r))) ` set b"
proof -
  from assms have "filter (\<lambda>x. rdevice x \<noteq> None) b = b"
    by (simp add: filter_id_conv)
  then show ?thesis
    by (simp add: List.map_filter_def image_comp comp_def)
qed

lemma groupby_device_maxima:
  assumes "\<forall>r \<in> set (bucket self tag). rtype r = tag \<and> rdevice r \<noteq> None"
  shows "\<exists>m. groupby self tag gpu_device_id py_max = (snd (defaultdict_getitem self tag), Inr m)
            \<and> device_maxima (bucket self tag) m"
proof -
  let ?key = "\<lambda>r. device_id (the (rdevice r))"
  let ?b = "bucket self tag"
  have crit: "gpu_device_id r = Inr (?key r)" if "r \<in> set ?b" for r
    using assms that by (auto simp: gpu_device_id_def)
  with assms have "\<forall>r \<in> set ?b. rtype r = tag \<and> gpu_device_id r = Inr (?key r)"
    by simp
  from groupby_general [OF this]
  obtain m where m: "groupby self tag gpu_device_id py_max = (snd (defaultdict_getitem self tag), Inr m)"
    "distinct (map fst m)" "set (map fst m) = ?key ` set ?b"
    "\<forall>k \<in> ?key ` set ?b. map_of m k = Some (Max (set (map rvalue [r \<leftarrow> ?b. ?key r = k])))"
    by blast
  have eq: "[r \<leftarrow> ?b. ?key r = k] = [r \<leftarrow> ?b. gpu_device_id r = Inr k]" for k
    using crit by (intro filter_cong) auto
  have ids: "set (map device_id (List.map_filter rdevice ?b)) = ?key ` set ?b"
    using assms by (intro device_ids) simp
  have "set (map fst m) = set (map device_id (List.map_filter rdevice ?b))"
    by (simp only: m(3) ids)
  moreover have "\<forall>d \<in> set (map fst m).
      map_of m d = Some (Max (set (map rvalue [r \<leftarrow> ?b. gpu_device_id r = Inr d])))"
    using m(4) by (simp only: m(3) eq)
  ultimately have "device_maxima ?b m"
    unfolding device_maxima_def using m(2) by blast
  with m(1) show ?thesis by blast
qed


section \<open>\<open>filter_records\<close> and its source\<close>

text \<open>
  What does hold of \<open>filter_records\<close> and the source: no call changes the records held
  for any class (it can only add empty buckets), and a call whose requested classes are
  all keys leaves the source as it is and copies exactly their buckets.
\<close>

lemma copy_buckets_source: "bucket (fst (copy_buckets self ts acc)) t = bucket self t"
proof (induction ts arbitrary: self acc)
  case Nil
  show ?case by simp
next
  case (Cons a ts)
  obtain b self1 where g: "defaultdict_getitem self a = (b, self1)"
    by (cases "defaultdict_getitem self a")
  then have "bucket self1 t = bucket self t"
    using bucket_getitem_snd [of self a t] by simp
  with g Cons.IH [of self1] show ?case by simp
qed

lemma filter_loop_source: "bucket (fst (filter_loop self hfs acc)) t = bucket self t"
proof (induction hfs arbitrary: self acc)
  case Nil
  show ?case by simp
next
  case (Cons hf hfs)
  obtain h f where hf: "hf = (h, f)" by (cases hf)
  obtain b self1 where g: "defaultdict_getitem self h = (b, self1)"
    by (cases "defaultdict_getitem self h")
  then have "bucket self1 t = bucket self t"
    using bucket_getitem_snd [of self h t] by simp
  with g hf Cons.IH [of self1] show ?case
    by (simp add: insert_matching_eq)
qed

lemma filter_keeps_buckets:
  "bucket (fst (filter_records self rts filters)) t = bucket self t"
  by (simp add: filter_records_def copy_buckets_source filter_loop_source split: prod.splits)
    (metis copy_buckets_source fst_conv)

lemma copy_buckets_present:
  "\<forall>t \<in> set ts. map_of self t \<noteq> None \<Longrightarrow>
     copy_buckets self ts acc = (self, fold (\<lambda>t acc. dict_setitem acc t (bucket self t)) ts acc)"
  by (induction ts arbitrary: acc) (simp_all add: getitem_known add_key_def)

lemma filter_types_only_present:
  assumes "ts \<noteq> []" and "\<forall>t \<in> set ts. map_of self t \<noteq> None"
  shows "filter_records self (Some ts) None
           = (self, Inr (fold (\<lambda>t acc. dict_setitem acc t (bucket self t)) ts []))"
  using assms by (simp add: filter_records_def truthy_def items_def copy_buckets_present)

lemma filter_malformed:
  "truthy filters \<Longrightarrow> \<not> truthy rts \<Longrightarrow>
     filter_records self rts filters = (self, Inl raise_unbound)"
  "truthy filters \<Longrightarrow> truthy rts \<Longrightarrow>
     length (items rts) \<noteq> length (items filters) \<Longrightarrow>
     filter_records self rts filters = (self, Inl raise_unbound)"
  by (simp_all add: filter_records_def)

text \<open>On the path where the workload returns, the monitor is stopped once.\<close>

lemma profile_success_stops_once:
  "run (perf_tags self) = Inr perf_records \<Longrightarrow>
     count_list (fst (profile self (Some run) dcgm_records)) stop_recording_metrics = 1"
  by (simp add: profile_def)


section \<open>Claims on \<open>groupby\<close> and \<open>aggregate\<close>\<close>

text \<open>
  C4, as the code has it. \<open>groupby\<close> on a record type whose bucket is present and empty
  raises nothing: it returns the empty mapping and leaves the aggregator as it is, for
  every criterion and every reducer.
\<close>

theorem groupby_empty_bucket:
  assumes "map_of self record_type = Some []"
  shows "groupby self record_type groupby_criteria reduce_func = (self, Inr [])"
  using assms
  by (simp add: groupby_def filter_records_def truthy_def items_def getitem_present
      add_key_def dict_setitem_def)

theorem groupby_empty_bucket_witness:
  "map_of [(GPUUsedMemory, [])] GPUUsedMemory = Some []
   \<and> groupby [(GPUUsedMemory, [])] GPUUsedMemory gpu_device_id py_max
       = ([(GPUUsedMemory, [])], Inr [])"
  using groupby_empty_bucket [of "[(GPUUsedMemory, [])]" GPUUsedMemory gpu_device_id py_max]
  by simp

text \<open>The claim as stated fails on an aggregator whose only bucket is empty.\<close>

theorem groupby_empty_bucket_counterexample:
  "\<not> isl (snd (groupby [(GPUUsedMemory, [])] GPUUsedMemory gpu_device_id py_max))
   \<and> snd (groupby [(GPUUsedMemory, [])] GPUUsedMemory gpu_device_id py_max) = Inr []"
  by (simp add: groupby_def filter_records_def truthy_def items_def defaultdict_getitem_def
      dict_setitem_def add_key_def)

text \<open>
  C5. Reduction per device. For an aggregator whose bucket for \<open>tag\<close> is not empty and
  holds device-scoped records of that class, \<open>groupby(tag, gpu_device_id)\<close> with the default
  reducer \<open>max\<close> returns normally, leaves the aggregator as it is, and its mapping has as
  keys exactly the device ids observed in the bucket, each mapped to the maximum value
  among the records of that device. In particular, records of device 0 with values 10, 30,
  20 and of device 1 with value 5 give \<open>{0: 30, 1: 5}\<close>.
\<close>

theorem groupby_device_max:
  "(map_of self tag = Some b \<and> b \<noteq> [] \<and> (\<forall>r \<in> set b. rtype r = tag \<and> rdevice r \<noteq> None)
      \<longrightarrow> (\<exists>m. groupby self tag gpu_device_id py_max = (self, Inr m) \<and> device_maxima b m))
   \<and> snd (groupby
         (inserts [] [Rec (Record GPUUsedMemory (Some (GPUDevice 0)) 10 0),
                      Rec (Record GPUUsedMemory (Some (GPUDevice 0)) 30 1),
                      Rec (Record GPUUsedMemory (Some (GPUDevice 0)) 20 2),
                      Rec (Record GPUUsedMemory (Some (GPUDevice 1)) 5 2)])
         GPUUsedMemory gpu_device_id py_max) = Inr [(0, 30), (1, 5)]"
proof (intro conjI impI)
  assume h: "map_of self tag = Some b \<and> b \<noteq> [] \<and> (\<forall>r \<in> set b. rtype r = tag \<and> rdevice r \<noteq> None)"
  then have b: "bucket self tag = b" by (simp add: bucket_def)
  with h have "\<forall>r \<in> set (bucket self tag). rtype r = tag \<and> rdevice r \<noteq> None" by simp
  from groupby_device_maxima [OF this] b h
  show "\<exists>m. groupby self tag gpu_device_id py_max = (self, Inr m) \<and> device_maxima b m"
    by (simp add: getitem_present)
next
  show "snd (groupby
         (inserts [] [Rec (Record GPUUsedMemory (Some (GPUDevice 0)) 10 0),
                      Rec (Record GPUUsedMemory (Some (GPUDevice 0)) 30 1),
                      Rec (Record GPUUsedMemory (Some (GPUDevice 0)) 20 2),
                      Rec (Record GPUUsedMemory (Some (GPUDevice 1)) 5 2)])
         GPUUsedMemory gpu_device_id py_max) = Inr [(0, 30), (1, 5)]"
    by (simp add: groupby_def filter_records_def truthy_def items_def insert_record_def
        defaultdict_getitem_def dict_setitem_def add_key_def gpu_device_id_def
        aggregate_def dict_getitem_def)
qed

theorem groupby_device_max_witness:
  "map_of [(GPUUsedMemory, [Record GPUUsedMemory (Some (GPUDevice 0)) 10 0,
                            Record GPUUsedMemory (Some (GPUDevice 1)) 5 1])] GPUUsedMemory
     = Some [Record GPUUsedMemory (Some (GPUDevice 0)) 10 0,
             Record GPUUsedMemory (Some (GPUDevice 1)) 5 1]
   \<and> (\<exists>m. groupby [(GPUUsedMemory, [Record GPUUsedMemory (Some (GPUDevice 0)) 10 0,
                                     Record GPUUsedMemory (Some (GPUDevice 1)) 5 1])]
             GPUUsedMemory gpu_device_id py_max
           = ([(GPUUsedMemory, [Record GPUUsedMemory (Some (GPUDevice 0)) 10 0,
                                Record GPUUsedMemory (Some (GPUDevice 1)) 5 1])], Inr m)
         \<and> device_maxima [Record GPUUsedMemory (Some (GPUDevice 0)) 10 0,
                           Record GPUUsedMemory (Some (GPUDevice 1)) 5 1] m)"
  using groupby_device_max [of
      "[(GPUUsedMemory, [Record GPUUsedMemory (Some (GPUDevice 0)) 10 0,
                         Record GPUUsedMemory (Some (GPUDevice 1)) 5 1])]"
      GPUUsedMemory
      "[Record GPUUsedMemory (Some (GPUDevice 0)) 10 0,
        Record GPUUsedMemory (Some (GPUDevice 1)) 5 1]"]
  by simp

text \<open>
  C6. Reduction per record type. For an aggregator whose buckets are all non-empty,
  \<open>aggregate()\<close> with the default reducer \<open>max\<close> returns normally, leaves the aggregator as
  it is, and maps each known record type, in the order of \<open>record_types()\<close>, to the
  maximum value of the records of its bucket. In particular, throughput records with
  values 100, 150, 120 give \<open>{PerfThroughput: 150}\<close>.
\<close>

theorem aggregate_default_max:
  "(dict_ok self \<and> (\<forall>(t, b) \<in> set self. b \<noteq> [])
      \<longrightarrow> aggregate self None py_max
            = (self, Inr (map (\<lambda>(t, b). (t, Max (set (map rvalue b)))) self)))
   \<and> snd (aggregate
         (inserts [] [Rec (Record PerfThroughput None 100 0),
                      Rec (Record PerfThroughput None 150 1),
                      Rec (Record PerfThroughput None 120 2)])
         None py_max) = Inr [(PerfThroughput, 150)]"
proof (intro conjI impI)
  assume "dict_ok self \<and> (\<forall>(t, b) \<in> set self. b \<noteq> [])"
  then show "aggregate self None py_max
            = (self, Inr (map (\<lambda>(t, b). (t, Max (set (map rvalue b)))) self))"
    by (simp add: aggregate_all_max)
next
  show "snd (aggregate
         (inserts [] [Rec (Record PerfThroughput None 100 0),
                      Rec (Record PerfThroughput None 150 1),
                      Rec (Record PerfThroughput None 120 2)])
         None py_max) = Inr [(PerfThroughput, 150)]"
    by (simp add: aggregate_def truthy_def record_types_def insert_record_def
        defaultdict_getitem_def dict_setitem_def)
qed

theorem aggregate_default_max_witness:
  "dict_ok [(PerfThroughput, [Record PerfThroughput None 100 0, Record PerfThroughput None 150 1]),
            (PerfLatency, [Record PerfLatency None 7 0])]
   \<and> aggregate [(PerfThroughput, [Record PerfThroughput None 100 0, Record PerfThroughput None 150 1]),
                (PerfLatency, [Record PerfLatency None 7 0])] None py_max
     = ([(PerfThroughput, [Record PerfThroughput None 100 0, Record PerfThroughput None 150 1]),
         (PerfLatency, [Record PerfLatency None 7 0])],
        Inr [(PerfThroughput, 150), (PerfLatency, 7)])"
  using aggregate_default_max [of
      "[(PerfThroughput, [Record PerfThroughput None 100 0, Record PerfThroughput None 150 1]),
        (PerfLatency, [Record PerfLatency None 7 0])]"]
  by (simp add: dict_ok_def)

section \<open>The profiling cycle\<close>




text \<open>
  A negative duration: the sleep raises, the monitor is left recording and nothing is
  returned.
\<close>

lemma profile_negative_sleep:
  "duration_seconds self < 0 \<Longrightarrow>
     profile self None dcgm_records
       = ([start_recording_metrics, sleep (duration_seconds self)], Inl ValueError)"
  by (simp add: profile_def)



end
